theory Spec2Isabelle
  imports Complex_Main
begin

section \<open>Posture classification of TechNeck (src/App.tsx)\<close>

text \<open>
  The model follows \<^verbatim>\<open>src/App.tsx\<close>: the top-level functions \<^verbatim>\<open>findDistance\<close> and
  \<^verbatim>\<open>findAngle\<close>, and the posture part of the per-frame function \<^verbatim>\<open>loop\<close> inside
  \<^verbatim>\<open>handleCameraStream\<close> (lines 152--217), which writes the React state cells
  \<^verbatim>\<open>aligned\<close> and \<^verbatim>\<open>color\<close>.

  JavaScript numbers are modelled as real numbers: rounding of IEEE doubles, overflow and
  signed zeros are not represented. The one non-finite value the code can produce from
  finite keypoints, NaN, is represented by \<open>None\<close> in an \<open>option\<close> result.
\<close>

subsection \<open>Data\<close>

text \<open>
  A keypoint of the pose-detection library, with the fields the code reads. The score is
  optional (the code reads it as \<^verbatim>\<open>k.score ?? 0\<close>).
\<close>

record keypoint =
  name :: string
  x :: real
  y :: real
  score :: "real option"

datatype CameraType = CameraType_front | CameraType_back

text \<open>
  The state cells of the component that the classifier reads or writes:
  \<^verbatim>\<open>const [aligned, setAligned] = useState(false)\<close>,
  \<^verbatim>\<open>const [color, setColor] = useState('green')\<close>,
  \<^verbatim>\<open>const [cameraType, setCameraType] = useState(CameraType.front)\<close>.
\<close>

record app_state =
  aligned :: bool
  color :: string
  cameraType :: CameraType

definition initial_state :: app_state where
  "initial_state = \<lparr>aligned = False, color = ''green'', cameraType = CameraType_front\<rparr>"

definition MIN_KEYPOINT_SCORE :: real where
  "MIN_KEYPOINT_SCORE = 3 / 10"

subsection \<open>findDistance and findAngle\<close>

text \<open>
  \<^verbatim>\<open>const dist = Math.sqrt((x2 - x1) ** 2 + (y2 - y1) ** 2); return Math.floor(dist);\<close>
\<close>

definition findDistance :: "real \<Rightarrow> real \<Rightarrow> real \<Rightarrow> real \<Rightarrow> int" where
  "findDistance x1 y1 x2 y2 = \<lfloor>sqrt ((x2 - x1)\<^sup>2 + (y2 - y1)\<^sup>2)\<rfloor>"

text \<open>
  \<^verbatim>\<open>Math.acos\<close> is NaN outside \<open>[-1, 1]\<close>.
\<close>

definition Math_acos :: "real \<Rightarrow> real option" where
  "Math_acos v = (if - 1 \<le> v \<and> v \<le> 1 then Some (arccos v) else None)"

text \<open>
  \<^verbatim>\<open>const angle = Math.acos((y2 - y1) * (-y1) / (Math.sqrt((x2 - x1) ** 2 + (y2 - y1) ** 2) * y1));\<close>
  \<^verbatim>\<open>return Math.floor(angle * (180 / Math.PI));\<close>

  The division has no guard. With a zero divisor the quotient is NaN (for \<open>0 / 0\<close>) or an
  infinity; \<^verbatim>\<open>Math.acos\<close> of either is NaN, and NaN goes through the multiplication and
  \<^verbatim>\<open>Math.floor\<close> unchanged. The result \<open>None\<close> is that NaN.
\<close>

definition findAngle :: "real \<Rightarrow> real \<Rightarrow> real \<Rightarrow> real \<Rightarrow> int option" where
  "findAngle x1 y1 x2 y2 =
     (let num = (y2 - y1) * (- y1);
          den = sqrt ((x2 - x1)\<^sup>2 + (y2 - y1)\<^sup>2) * y1
      in if den = 0 then None
         else (case Math_acos (num / den) of
                 None \<Rightarrow> None
               | Some angle \<Rightarrow> Some \<lfloor>angle * (180 / pi)\<rfloor>))"

text \<open>
  The comparison \<^verbatim>\<open>a < n\<close> of a possibly-NaN number with a constant: every
  comparison with NaN is false.
\<close>

definition js_less :: "int option \<Rightarrow> int \<Rightarrow> bool" where
  "js_less a n = (case a of None \<Rightarrow> False | Some v \<Rightarrow> v < n)"

subsection \<open>The posture part of the frame loop\<close>

text \<open>
  Lines 155--165: the shoulder check. \<^verbatim>\<open>keypoints.find\<close> returns the first keypoint with
  the name, or \<^verbatim>\<open>undefined\<close>; a found keypoint is an object and so is truthy.
\<close>

definition shoulderCheck :: "keypoint list \<Rightarrow> app_state \<Rightarrow> app_state" where
  "shoulderCheck keypoints s =
     (case (find (\<lambda>kp. name kp = ''left_shoulder'') keypoints,
            find (\<lambda>kp. name kp = ''right_shoulder'') keypoints) of
        (Some leftShoulder, Some rightShoulder) \<Rightarrow>
          (if findDistance (x leftShoulder) (y leftShoulder) (x rightShoulder) (y rightShoulder) < 100
           then s\<lparr>aligned := True\<rparr>
           else s\<lparr>aligned := False\<rparr>)
      | _ \<Rightarrow> s)"

text \<open>Lines 176--191: the front-camera branch.\<close>

definition frontBranch :: "keypoint list \<Rightarrow> app_state \<Rightarrow> app_state" where
  "frontBranch keypoints s =
     (if cameraType s = CameraType_front then
        (case (find (\<lambda>kp. name kp = ''left_ear'') keypoints,
               find (\<lambda>kp. name kp = ''right_ear'') keypoints,
               find (\<lambda>kp. name kp = ''nose'') keypoints) of
           (Some leftEar, Some rightEar, Some nose) \<Rightarrow>
             (let earsMidpoint_x = (x leftEar + x rightEar) / 2;
                  earsMidpoint_y = (y leftEar + y rightEar) / 2;
                  dist = findDistance earsMidpoint_x earsMidpoint_y (x nose) (y nose)
              in if dist < 10
                 then s\<lparr>color := ''green'', aligned := True\<rparr>
                 else s\<lparr>color := ''red'', aligned := False\<rparr>)
         | _ \<Rightarrow> s)
      else s)"

text \<open>Lines 193--216: the back-camera branch.\<close>

definition backBranch :: "keypoint list \<Rightarrow> app_state \<Rightarrow> app_state" where
  "backBranch keypoints s =
     (if cameraType s = CameraType_back then
        (case (find (\<lambda>kp. name kp = ''left_shoulder'') keypoints,
               find (\<lambda>kp. name kp = ''right_shoulder'') keypoints,
               find (\<lambda>kp. name kp = ''left_ear'') keypoints,
               find (\<lambda>kp. name kp = ''right_ear'') keypoints,
               find (\<lambda>kp. name kp = ''left_hip'') keypoints,
               find (\<lambda>kp. name kp = ''right_hip'') keypoints) of
           (Some leftShoulder, Some rightShoulder, Some leftEar, Some rightEar,
            Some leftHip, Some rightHip) \<Rightarrow>
             (let neckAngle = findAngle (x leftShoulder) (y leftShoulder) (x leftEar) (y leftEar);
                  torsoAngle = findAngle (x leftHip) (y leftHip) (x leftShoulder) (y leftShoulder)
              in if js_less neckAngle 40 \<and> js_less torsoAngle 10
                 then s\<lparr>color := ''green'', aligned := True\<rparr>
                 else s\<lparr>color := ''red'', aligned := False\<rparr>)
         | _ \<Rightarrow> s)
      else s)"

text \<open>
  Lines 152--217: \<^verbatim>\<open>if (poses && poses.length > 0)\<close>, then the three statements in
  their order on \<^verbatim>\<open>poses[0].keypoints\<close>. A pose is given by its keypoint list.
\<close>

definition detectPosture :: "keypoint list list \<Rightarrow> app_state \<Rightarrow> app_state" where
  "detectPosture poses s =
     (case poses of
        [] \<Rightarrow> s
      | keypoints # _ \<Rightarrow> backBranch keypoints (frontBranch keypoints (shoulderCheck keypoints s)))"

text \<open>
  One run of \<^verbatim>\<open>loop\<close>: the guard \<^verbatim>\<open>model && tfReady && imageTensor != null\<close> is the
  flag \<open>ready\<close>, the result of \<^verbatim>\<open>model.estimatePoses\<close> is \<open>poses\<close>.
\<close>

definition loop :: "bool \<Rightarrow> keypoint list list \<Rightarrow> app_state \<Rightarrow> app_state" where
  "loop ready poses s = (if ready then detectPosture poses s else s)"

text \<open>Lines 301--307.\<close>

definition handleSwitchCameraType :: "app_state \<Rightarrow> app_state" where
  "handleSwitchCameraType s =
     (if cameraType s = CameraType_front
      then s\<lparr>cameraType := CameraType_back\<rparr>
      else s\<lparr>cameraType := CameraType_front\<rparr>)"

text \<open>
  Lines 239--240 of \<^verbatim>\<open>renderPose\<close>: the keypoints that are drawn,
  \<^verbatim>\<open>poses[0].keypoints.filter((k) => (k.score ?? 0) > MIN_KEYPOINT_SCORE)\<close>.
\<close>

definition renderPose_keypoints :: "keypoint list list \<Rightarrow> keypoint list" where
  "renderPose_keypoints poses =
     (case poses of
        [] \<Rightarrow> []
      | keypoints # _ \<Rightarrow>
          filter (\<lambda>k. (case score k of None \<Rightarrow> 0 | Some v \<Rightarrow> v) > MIN_KEYPOINT_SCORE) keypoints)"

text \<open>The states the component can be in: the initial one, then any frames and switches.\<close>

inductive reachable :: "app_state \<Rightarrow> bool" where
  reachable_initial: "reachable initial_state"
| reachable_loop: "reachable s \<Longrightarrow> reachable (loop ready poses s)"
| reachable_switch: "reachable s \<Longrightarrow> reachable (handleSwitchCameraType s)"

subsection \<open>Concrete frames and states used below\<close>


definition red_front_state :: app_state where
  "red_front_state = \<lparr>aligned = False, color = ''red'', cameraType = CameraType_front\<rparr>"

definition near_shoulders_pose :: "keypoint list" where
  "near_shoulders_pose =
     [\<lparr>name = ''left_shoulder'', x = 0, y = 0, score = Some 1\<rparr>,
      \<lparr>name = ''right_shoulder'', x = 50, y = 0, score = Some 1\<rparr>]"


definition low_score_pose :: "keypoint list" where
  "low_score_pose =
     [\<lparr>name = ''left_ear'', x = 0, y = 0, score = Some (1 / 10)\<rparr>,
      \<lparr>name = ''right_ear'', x = 10, y = 0, score = Some (1 / 10)\<rparr>,
      \<lparr>name = ''nose'', x = 5, y = 3, score = Some (1 / 10)\<rparr>]"

definition shoulders_and_face_pose :: "keypoint list" where
  "shoulders_and_face_pose =
     [\<lparr>name = ''left_shoulder'', x = 0, y = 0, score = Some 1\<rparr>,
      \<lparr>name = ''right_shoulder'', x = 50, y = 0, score = Some 1\<rparr>,
      \<lparr>name = ''left_ear'', x = 0, y = 0, score = Some 1\<rparr>,
      \<lparr>name = ''right_ear'', x = 10, y = 0, score = Some 1\<rparr>,
      \<lparr>name = ''nose'', x = 5, y = 20, score = Some 1\<rparr>]"


definition top_edge_pose :: "keypoint list" where
  "top_edge_pose =
     [\<lparr>name = ''left_shoulder'', x = 20, y = 0, score = Some 1\<rparr>,
      \<lparr>name = ''right_shoulder'', x = 40, y = 0, score = Some 1\<rparr>,
      \<lparr>name = ''left_ear'', x = 25, y = 0, score = Some 1\<rparr>,
      \<lparr>name = ''right_ear'', x = 35, y = 0, score = Some 1\<rparr>,
      \<lparr>name = ''left_hip'', x = 20, y = 40, score = Some 1\<rparr>,
      \<lparr>name = ''right_hip'', x = 40, y = 40, score = Some 1\<rparr>]"

definition red_back_state :: app_state where
  "red_back_state = \<lparr>aligned = False, color = ''red'', cameraType = CameraType_back\<rparr>"

section \<open>Auxiliary facts about the three statements\<close>

lemma backBranch_front: "cameraType s = CameraType_front \<Longrightarrow> backBranch keypoints s = s"
  by (simp add: backBranch_def)


lemma cameraType_shoulderCheck: "cameraType (shoulderCheck keypoints s) = cameraType s"
  by (simp add: shoulderCheck_def split: option.split)

lemma color_shoulderCheck: "color (shoulderCheck keypoints s) = color s"
  by (simp add: shoulderCheck_def split: option.split)

lemma shoulderCheck_aligned_only:
  "shoulderCheck keypoints s = s\<lparr>aligned := aligned (shoulderCheck keypoints s)\<rparr>"
  by (simp add: shoulderCheck_def split: option.split)


lemma color_frontBranch:
  "color (frontBranch keypoints s) = ''green'' \<or> color (frontBranch keypoints s) = ''red''
   \<or> color (frontBranch keypoints s) = color s"
  by (simp add: frontBranch_def Let_def split: option.split)

lemma color_backBranch:
  "color (backBranch keypoints s) = ''green'' \<or> color (backBranch keypoints s) = ''red''
   \<or> color (backBranch keypoints s) = color s"
  by (simp add: backBranch_def Let_def split: option.split)

lemma color_detectPosture:
  "color (detectPosture poses s) = ''green'' \<or> color (detectPosture poses s) = ''red''
   \<or> color (detectPosture poses s) = color s"
proof (cases poses)
  case Nil
  then show ?thesis by (simp add: detectPosture_def)
next
  case (Cons keypoints rest)
  let ?t = "shoulderCheck keypoints s" and ?u = "frontBranch keypoints (shoulderCheck keypoints s)"
  have "color ?t = color s" by (rule color_shoulderCheck)
  with color_frontBranch [of keypoints ?t] color_backBranch [of keypoints ?u] Cons
  show ?thesis by (auto simp add: detectPosture_def)
qed

lemma cameraType_backBranch: "cameraType (backBranch keypoints s) = cameraType s"
  by (simp add: backBranch_def Let_def split: option.split)

lemma find_name_score_update:
  "find (\<lambda>kp. name kp = n) (map (\<lambda>k. k\<lparr>score := f k\<rparr>) keypoints)
     = map_option (\<lambda>k. k\<lparr>score := f k\<rparr>) (find (\<lambda>kp. name kp = n) keypoints)"
  by (induction keypoints) simp_all

lemma shoulderCheck_score_update:
  "shoulderCheck (map (\<lambda>k. k\<lparr>score := f k\<rparr>) keypoints) s = shoulderCheck keypoints s"
  by (simp add: shoulderCheck_def find_name_score_update split: option.split)

lemma frontBranch_score_update:
  "frontBranch (map (\<lambda>k. k\<lparr>score := f k\<rparr>) keypoints) s = frontBranch keypoints s"
  by (simp add: frontBranch_def find_name_score_update split: option.split)

lemma backBranch_score_update:
  "backBranch (map (\<lambda>k. k\<lparr>score := f k\<rparr>) keypoints) s = backBranch keypoints s"
  by (simp add: backBranch_def find_name_score_update split: option.split)

lemma frontBranch_after_write:
  "frontBranch keypoints (s\<lparr>aligned := b\<rparr>) = frontBranch keypoints s
   \<or> (frontBranch keypoints (s\<lparr>aligned := b\<rparr>) = s\<lparr>aligned := b\<rparr>
       \<and> frontBranch keypoints s = s)"
  by (simp add: frontBranch_def Let_def split: option.split)

lemma backBranch_after_write:
  "backBranch keypoints (s\<lparr>aligned := b\<rparr>) = backBranch keypoints s
   \<or> (backBranch keypoints (s\<lparr>aligned := b\<rparr>) = s\<lparr>aligned := b\<rparr>
       \<and> backBranch keypoints s = s)"
  by (simp add: backBranch_def Let_def split: option.split)

lemma branches_after_write:
  "backBranch keypoints (frontBranch keypoints (s\<lparr>aligned := b\<rparr>))
     = backBranch keypoints (frontBranch keypoints s)
   \<or> (backBranch keypoints (frontBranch keypoints (s\<lparr>aligned := b\<rparr>)) = s\<lparr>aligned := b\<rparr>
       \<and> backBranch keypoints (frontBranch keypoints s) = s)"
proof -
  from frontBranch_after_write [where keypoints = keypoints and s = s and b = b]
  show ?thesis
  proof
    assume "frontBranch keypoints (s\<lparr>aligned := b\<rparr>) = frontBranch keypoints s"
    then show ?thesis by simp
  next
    assume "frontBranch keypoints (s\<lparr>aligned := b\<rparr>) = s\<lparr>aligned := b\<rparr>
       \<and> frontBranch keypoints s = s"
    with backBranch_after_write [where keypoints = keypoints and s = s and b = b]
    show ?thesis by auto
  qed
qed

lemma branches_overwrite_aligned:
  "backBranch keypoints (frontBranch keypoints (s\<lparr>aligned := b\<rparr>)) = s\<lparr>aligned := b\<rparr>
   \<or> backBranch keypoints (frontBranch keypoints (s\<lparr>aligned := b\<rparr>))
       = backBranch keypoints (frontBranch keypoints s)"
  using branches_after_write [where keypoints = keypoints and s = s and b = b] by blast

lemma branches_color_aligned:
  "color (backBranch keypoints (frontBranch keypoints (s\<lparr>aligned := b\<rparr>)))
     = color (backBranch keypoints (frontBranch keypoints s))"
  using branches_after_write [where keypoints = keypoints and s = s and b = b] by auto

section \<open>Auxiliary facts about findAngle\<close>






lemma findAngle_y1_zero: "findAngle x1 0 x2 y2 = None"
  by (simp add: findAngle_def)







section \<open>The front-camera branch\<close>



text \<open>
  Claim C7. When one of \<^verbatim>\<open>left_ear\<close>, \<^verbatim>\<open>right_ear\<close>, \<^verbatim>\<open>nose\<close> is not found, the
  front-camera branch is skipped: it returns the state it was given, whatever verdict and
  color that state holds. With the front camera the color after the whole frame is the
  prior color, and the frame does what the shoulder check alone does.
\<close>

theorem front_branch_skipped_when_keypoint_missing:
  assumes "find (\<lambda>kp. name kp = ''left_ear'') keypoints = None
           \<or> find (\<lambda>kp. name kp = ''right_ear'') keypoints = None
           \<or> find (\<lambda>kp. name kp = ''nose'') keypoints = None"
  shows "frontBranch keypoints s = s
         \<and> (cameraType s = CameraType_front \<longrightarrow>
              color (loop ready (keypoints # rest) s) = color s
              \<and> loop ready (keypoints # rest) s = (if ready then shoulderCheck keypoints s else s))"
proof -
  have skip: "frontBranch keypoints t = t" for t
    using assms by (auto simp add: frontBranch_def split: option.split)
  show ?thesis
    by (simp add: skip loop_def detectPosture_def backBranch_front
        cameraType_shoulderCheck color_shoulderCheck)
qed

theorem front_branch_skipped_when_keypoint_missing_witness:
  "(find (\<lambda>kp. name kp = ''left_ear'') near_shoulders_pose = None
    \<or> find (\<lambda>kp. name kp = ''right_ear'') near_shoulders_pose = None
    \<or> find (\<lambda>kp. name kp = ''nose'') near_shoulders_pose = None)
   \<and> cameraType red_front_state = CameraType_front
   \<and> frontBranch near_shoulders_pose red_front_state = red_front_state
   \<and> color (loop True [near_shoulders_pose] red_front_state) = ''red''"
proof -
  have h: "find (\<lambda>kp. name kp = ''left_ear'') near_shoulders_pose = None
    \<or> find (\<lambda>kp. name kp = ''right_ear'') near_shoulders_pose = None
    \<or> find (\<lambda>kp. name kp = ''nose'') near_shoulders_pose = None"
    by (simp add: near_shoulders_pose_def)
  have c: "cameraType red_front_state = CameraType_front"
    by (simp add: red_front_state_def)
  have col: "color red_front_state = ''red''"
    by (simp add: red_front_state_def)
  from front_branch_skipped_when_keypoint_missing [OF h, of red_front_state True "[]"] c col h
  show ?thesis by (simp add: color_shoulderCheck)
qed

section \<open>The shoulder check\<close>



section \<open>The color\<close>

text \<open>
  Claim C10. The color is \<open>''green''\<close> initially and every write of the classifier is
  \<open>''green''\<close> or \<open>''red''\<close>, so in every reachable state the color is one of the two.
\<close>

theorem color_green_or_red:
  "reachable s \<Longrightarrow> color s = ''green'' \<or> color s = ''red''"
proof (induction rule: reachable.induct)
  case reachable_initial
  show ?case by (simp add: initial_state_def)
next
  case (reachable_loop s ready poses)
  with color_detectPosture [of poses s] show ?case
    by (auto simp add: loop_def)
next
  case (reachable_switch s)
  then show ?case by (simp add: handleSwitchCameraType_def)
qed

theorem color_green_or_red_witness:
  "reachable (loop True [shoulders_and_face_pose] initial_state)
   \<and> color (loop True [shoulders_and_face_pose] initial_state) = ''red''
   \<and> color initial_state = ''green''"
proof -
  have r: "reachable (loop True [shoulders_and_face_pose] initial_state)"
    by (rule reachable_loop [OF reachable_initial])
  have "color (loop True [shoulders_and_face_pose] initial_state) \<noteq> ''green''"
    by (simp add: loop_def detectPosture_def shoulderCheck_def frontBranch_def backBranch_def
        shoulders_and_face_pose_def initial_state_def findDistance_def)
  with color_green_or_red [OF r] r show ?thesis
    by (simp add: initial_state_def)
qed

section \<open>The back-camera branch\<close>




section \<open>The angle formula\<close>



text \<open>
  Claim C8. For \<open>y1 = 0\<close> the division in \<^verbatim>\<open>findAngle\<close> is by zero and the result is
  NaN, whatever the other arguments. The caller does not check for it either: in the
  back-camera branch a left shoulder or a left hip with \<open>y = 0\<close> makes an angle NaN, the
  comparison with it is false, and the branch sets not aligned and red.
\<close>

theorem findAngle_zero_y1:
  "findAngle x1 0 x2 y2 = None
   \<and> (cameraType s = CameraType_back
        \<and> find (\<lambda>kp. name kp = ''left_shoulder'') keypoints = Some leftShoulder
        \<and> find (\<lambda>kp. name kp = ''right_shoulder'') keypoints = Some rightShoulder
        \<and> find (\<lambda>kp. name kp = ''left_ear'') keypoints = Some leftEar
        \<and> find (\<lambda>kp. name kp = ''right_ear'') keypoints = Some rightEar
        \<and> find (\<lambda>kp. name kp = ''left_hip'') keypoints = Some leftHip
        \<and> find (\<lambda>kp. name kp = ''right_hip'') keypoints = Some rightHip
        \<and> (y leftShoulder = 0 \<or> y leftHip = 0)
      \<longrightarrow> backBranch keypoints s = s\<lparr>color := ''red'', aligned := False\<rparr>)"
  by (auto simp add: findAngle_y1_zero backBranch_def js_less_def)

text \<open>An instance: shoulders and ears on the top row of the image.\<close>

theorem findAngle_zero_y1_witness:
  "cameraType red_back_state = CameraType_back
   \<and> find (\<lambda>kp. name kp = ''left_shoulder'') top_edge_pose
     = Some \<lparr>name = ''left_shoulder'', x = 20, y = 0, score = Some 1\<rparr>
   \<and> find (\<lambda>kp. name kp = ''right_shoulder'') top_edge_pose
     = Some \<lparr>name = ''right_shoulder'', x = 40, y = 0, score = Some 1\<rparr>
   \<and> find (\<lambda>kp. name kp = ''left_ear'') top_edge_pose
     = Some \<lparr>name = ''left_ear'', x = 25, y = 0, score = Some 1\<rparr>
   \<and> find (\<lambda>kp. name kp = ''right_ear'') top_edge_pose
     = Some \<lparr>name = ''right_ear'', x = 35, y = 0, score = Some 1\<rparr>
   \<and> find (\<lambda>kp. name kp = ''left_hip'') top_edge_pose
     = Some \<lparr>name = ''left_hip'', x = 20, y = 40, score = Some 1\<rparr>
   \<and> find (\<lambda>kp. name kp = ''right_hip'') top_edge_pose
     = Some \<lparr>name = ''right_hip'', x = 40, y = 40, score = Some 1\<rparr>
   \<and> findAngle 20 0 25 0 = None
   \<and> backBranch top_edge_pose (red_back_state\<lparr>color := ''green'', aligned := True\<rparr>)
     = red_back_state"
proof -
  let ?s = "red_back_state\<lparr>color := ''green'', aligned := True\<rparr>"
  have c: "cameraType ?s = CameraType_back"
    by (simp add: red_back_state_def)
  have f: "find (\<lambda>kp. name kp = ''left_shoulder'') top_edge_pose
     = Some \<lparr>name = ''left_shoulder'', x = 20, y = 0, score = Some 1\<rparr>"
    "find (\<lambda>kp. name kp = ''right_shoulder'') top_edge_pose
     = Some \<lparr>name = ''right_shoulder'', x = 40, y = 0, score = Some 1\<rparr>"
    "find (\<lambda>kp. name kp = ''left_ear'') top_edge_pose
     = Some \<lparr>name = ''left_ear'', x = 25, y = 0, score = Some 1\<rparr>"
    "find (\<lambda>kp. name kp = ''right_ear'') top_edge_pose
     = Some \<lparr>name = ''right_ear'', x = 35, y = 0, score = Some 1\<rparr>"
    "find (\<lambda>kp. name kp = ''left_hip'') top_edge_pose
     = Some \<lparr>name = ''left_hip'', x = 20, y = 40, score = Some 1\<rparr>"
    "find (\<lambda>kp. name kp = ''right_hip'') top_edge_pose
     = Some \<lparr>name = ''right_hip'', x = 40, y = 40, score = Some 1\<rparr>"
    by (simp_all add: top_edge_pose_def)
  from findAngle_zero_y1 [of 20 25 0 ?s top_edge_pose
      "\<lparr>name = ''left_shoulder'', x = 20, y = 0, score = Some 1\<rparr>"
      "\<lparr>name = ''right_shoulder'', x = 40, y = 0, score = Some 1\<rparr>"
      "\<lparr>name = ''left_ear'', x = 25, y = 0, score = Some 1\<rparr>"
      "\<lparr>name = ''right_ear'', x = 35, y = 0, score = Some 1\<rparr>"
      "\<lparr>name = ''left_hip'', x = 20, y = 40, score = Some 1\<rparr>"
      "\<lparr>name = ''right_hip'', x = 40, y = 40, score = Some 1\<rparr>"] c f
  have "findAngle 20 0 25 0 = None \<and> backBranch top_edge_pose ?s = red_back_state"
    by (simp add: red_back_state_def)
  with c f show ?thesis by (simp add: red_back_state_def)
qed



section \<open>Scores and the two uses of \<^verbatim>\<open>aligned\<close>\<close>

text \<open>
  Claim C3, as the code has it. The classifier never reads a keypoint's score: replacing
  the scores of a frame by any others, below or above \<^verbatim>\<open>MIN_KEYPOINT_SCORE\<close>, leaves
  the outcome of the frame the same. The threshold only filters the keypoints that
  \<^verbatim>\<open>renderPose\<close> draws.
\<close>

theorem classification_ignores_scores:
  "loop ready (map (map (\<lambda>k. k\<lparr>score := f k\<rparr>)) poses) s = loop ready poses s"
  by (cases poses)
    (simp_all add: loop_def detectPosture_def shoulderCheck_score_update
      frontBranch_score_update backBranch_score_update)

text \<open>
  Claim C3 as stated fails: with both ears and the nose found at score 0.1, below the
  threshold 0.3 (none of them is drawn), a front-camera frame changes the verdict from not
  aligned to aligned and the color from red to green.
\<close>

theorem low_score_counterexample:
  "map score low_score_pose = [Some (1 / 10), Some (1 / 10), Some (1 / 10)]
   \<and> (1 / 10 :: real) < MIN_KEYPOINT_SCORE
   \<and> renderPose_keypoints [low_score_pose] = []
   \<and> red_front_state = \<lparr>aligned = False, color = ''red'', cameraType = CameraType_front\<rparr>
   \<and> loop True [low_score_pose] red_front_state
       = \<lparr>aligned = True, color = ''green'', cameraType = CameraType_front\<rparr>"
  by (simp add: low_score_pose_def MIN_KEYPOINT_SCORE_def renderPose_keypoints_def
      red_front_state_def loop_def detectPosture_def shoulderCheck_def frontBranch_def
      backBranch_def findDistance_def)

text \<open>
  Claim C4, as the code has it. There is one \<^verbatim>\<open>aligned\<close> cell, written by the shoulder
  check and by the camera branches. The shoulder check never changes the color, and the
  color after a frame is what the two camera branches alone would give. The state after a
  frame is either what the shoulder check alone gives (no camera branch ran) or what the
  camera branches alone give (the shoulder result is overwritten).
\<close>

theorem one_aligned_cell:
  "color (shoulderCheck keypoints s) = color s
   \<and> color (loop True (keypoints # rest) s)
       = color (backBranch keypoints (frontBranch keypoints s))
   \<and> (loop True (keypoints # rest) s = shoulderCheck keypoints s
        \<or> loop True (keypoints # rest) s = backBranch keypoints (frontBranch keypoints s))"
proof -
  obtain b where t: "shoulderCheck keypoints s = s\<lparr>aligned := b\<rparr>"
    using shoulderCheck_aligned_only by blast
  have l: "loop True (keypoints # rest) s
      = backBranch keypoints (frontBranch keypoints (s\<lparr>aligned := b\<rparr>))"
    by (simp add: loop_def detectPosture_def t)
  have c1: "color (shoulderCheck keypoints s) = color s"
    by (rule color_shoulderCheck)
  have c2: "color (loop True (keypoints # rest) s)
      = color (backBranch keypoints (frontBranch keypoints s))"
    unfolding l by (rule branches_color_aligned)
  have c3: "loop True (keypoints # rest) s = shoulderCheck keypoints s
      \<or> loop True (keypoints # rest) s = backBranch keypoints (frontBranch keypoints s)"
    unfolding l t by (rule branches_overwrite_aligned)
  from c1 c2 c3 show ?thesis by blast
qed

text \<open>
  Claim C4 as stated fails in both directions. A frame with only the two shoulders, 50
  apart, turns the verdict left by an earlier frame (not aligned, red) into aligned while
  the color stays red. And in a front-camera frame with shoulders 50 apart and the nose 20
  from the ears' midpoint, the shoulder check writes true and the front branch overwrites
  it with false.
\<close>

theorem one_aligned_cell_counterexample:
  "aligned red_front_state = False
   \<and> aligned (loop True [near_shoulders_pose] red_front_state) = True
   \<and> color (loop True [near_shoulders_pose] red_front_state) = ''red''
   \<and> aligned (shoulderCheck shoulders_and_face_pose initial_state) = True
   \<and> aligned (loop True [shoulders_and_face_pose] initial_state) = False"
  by (simp add: near_shoulders_pose_def shoulders_and_face_pose_def red_front_state_def
      initial_state_def loop_def detectPosture_def shoulderCheck_def frontBranch_def
      backBranch_def findDistance_def)

end
